theory Spec2Isabelle
  imports Complex_Main
begin

section \<open>Backtest engine (src/app/backtest/engine.py)\<close>

text \<open>
  Python floats are idealised as real numbers. The only undefined value (NaN) that the
  engine tests for is the one of the ATR column, so an ATR cell is a \<open>real option\<close>
  (\<open>None\<close> is NaN); prices are finite reals and signals are integers, as the strategies
  produce them.
\<close>

datatype error = KeyError string | IndexError | ValueError | TypeError | OverflowError

text \<open>
  A pandas DataFrame: its number of rows and its columns, each of which may be absent.
  \<open>df["c"]\<close> on an absent column raises KeyError.
\<close>

record DataFrame =
  n_rows :: nat
  col_time :: "int list option"
  col_open :: "real list option"
  col_high :: "real list option"
  col_low :: "real list option"
  col_close :: "real list option"
  col_signal :: "int list option"
  col_atr :: "real option list option"

definition column :: "string \<Rightarrow> 'a list option \<Rightarrow> error + 'a list" where
  "column name c = (case c of None \<Rightarrow> Inl (KeyError name) | Some xs \<Rightarrow> Inr xs)"

definition iloc :: "'a list \<Rightarrow> nat \<Rightarrow> error + 'a" where
  "iloc xs i = (if i < length xs then Inr (xs ! i) else Inl IndexError)"

text \<open>\<open>df["c"].iloc[i]\<close>: the column lookup first, then the positional read.\<close>

definition cell :: "string \<Rightarrow> 'a list option \<Rightarrow> nat \<Rightarrow> error + 'a" where
  "cell name c i = (case column name c of Inl e \<Rightarrow> Inl e | Inr xs \<Rightarrow> iloc xs i)"

text \<open>Every column that is present has one cell per row.\<close>

definition well_formed :: "DataFrame \<Rightarrow> bool" where
  "well_formed df \<longleftrightarrow>
     (case col_time df of None \<Rightarrow> True | Some xs \<Rightarrow> length xs = n_rows df) \<and>
     (case col_open df of None \<Rightarrow> True | Some xs \<Rightarrow> length xs = n_rows df) \<and>
     (case col_high df of None \<Rightarrow> True | Some xs \<Rightarrow> length xs = n_rows df) \<and>
     (case col_low df of None \<Rightarrow> True | Some xs \<Rightarrow> length xs = n_rows df) \<and>
     (case col_close df of None \<Rightarrow> True | Some xs \<Rightarrow> length xs = n_rows df) \<and>
     (case col_signal df of None \<Rightarrow> True | Some xs \<Rightarrow> length xs = n_rows df) \<and>
     (case col_atr df of None \<Rightarrow> True | Some xs \<Rightarrow> length xs = n_rows df)"

record Trade =
  entry_idx :: int
  entry_price :: real
  direction :: int
  stop_loss :: real
  take_profit :: real
  exit_idx :: int
  exit_price :: real
  pnl :: real
  closed' :: bool

text \<open>An entry of \<open>result.trades\<close>: the dictionary built at the end of \<open>run_backtest\<close>.\<close>

record TradeDict =
  d_entry_idx :: int
  d_entry_price :: real
  d_exit_idx :: int
  d_exit_price :: real
  d_direction :: string
  d_pnl :: real
  d_stop_loss :: real
  d_take_profit :: real

record BacktestResult =
  trades :: "TradeDict list"
  equity_curve :: "real list"
  win_rate :: real
  total_trades :: nat
  total_pnl :: real
  sharpe_ratio :: real
  max_drawdown :: real

text \<open>The keyword arguments of \<open>run_backtest\<close>.\<close>

record Config =
  spread_pips :: real
  sl_atr_mult :: real
  tp_atr_mult :: real
  risk_pct :: real
  initial_capital :: real

definition default_config :: Config where
  "default_config = \<lparr>spread_pips = 3/2, sl_atr_mult = 3/2, tp_atr_mult = 2,
     risk_pct = 1/100, initial_capital = 10000\<rparr>"

subsection \<open>\<open>_compute_atr\<close>\<close>

text \<open>
  Row \<open>i\<close> of \<open>tr\<close>: the row-wise maximum skips the two NaN cells that \<open>shift()\<close> leaves
  in row 0.
\<close>

definition true_range :: "real list \<Rightarrow> real list \<Rightarrow> real list \<Rightarrow> nat \<Rightarrow> real" where
  "true_range h l c i =
     (if i = 0 then h ! 0 - l ! 0
      else max (h ! i - l ! i) (max \<bar>h ! i - c ! (i - 1)\<bar> \<bar>l ! i - c ! (i - 1)\<bar>))"

text \<open>\<open>rolling(period).mean()\<close>: NaN until \<open>period\<close> values are in the window.\<close>

definition rolling_mean :: "nat \<Rightarrow> real list \<Rightarrow> nat \<Rightarrow> real option" where
  "rolling_mean period xs i =
     (if i + 1 < period then None
      else Some (sum_list (take period (drop (i + 1 - period) xs)) / real period))"

definition compute_atr :: "DataFrame \<Rightarrow> nat \<Rightarrow> error + real option list" where
  "compute_atr df period =
     (case column ''high'' (col_high df) of Inl e \<Rightarrow> Inl e | Inr h \<Rightarrow>
     (case column ''low'' (col_low df) of Inl e \<Rightarrow> Inl e | Inr l \<Rightarrow>
     (case column ''close'' (col_close df) of Inl e \<Rightarrow> Inl e | Inr c \<Rightarrow>
        Inr (map (rolling_mean period (map (true_range h l c) [0..<n_rows df]))
               [0..<n_rows df]))))"

text \<open>Lines 66-68: the ATR column given with the frame, or computed with period 14.\<close>

definition atr_column :: "DataFrame \<Rightarrow> error + real option list" where
  "atr_column df = (case col_atr df of Some a \<Rightarrow> Inr a | None \<Rightarrow> compute_atr df 14)"

subsection \<open>The per-bar loop\<close>

text \<open>The local variables that the loop of \<open>run_backtest\<close> updates.\<close>

record sim =
  capital :: real
  curve :: "real list"
  ledger :: "Trade list"
  open_trade :: "Trade option"

definition spread_of :: "Config \<Rightarrow> real" where
  "spread_of cfg = spread_pips cfg * (1 / 10000)"

datatype exit_kind = HitSL | HitTP

text \<open>Lines 92-107: which exit is hit on a bar, and at which price.\<close>

definition check_exit :: "real \<Rightarrow> Trade \<Rightarrow> real \<Rightarrow> real \<Rightarrow> (exit_kind \<times> real) option" where
  "check_exit spread t high low =
     (if direction t = 1 then
        (if low \<le> stop_loss t then Some (HitSL, stop_loss t - spread / 2)
         else if high \<ge> take_profit t then Some (HitTP, take_profit t - spread / 2)
         else None)
      else
        (if high \<ge> stop_loss t then Some (HitSL, stop_loss t + spread / 2)
         else if low \<le> take_profit t then Some (HitTP, take_profit t + spread / 2)
         else None))"

text \<open>
  Lines 110-121 and 155-165 (the same statements twice in the source): the trade is
  given its exit and its PnL, scaled by the position size.
\<close>

definition close_trade :: "Config \<Rightarrow> real \<Rightarrow> Trade \<Rightarrow> int \<Rightarrow> real \<Rightarrow> Trade" where
  "close_trade cfg cap t i price =
     (let raw = (price - entry_price t) * real_of_int (direction t);
          risk_amount = risk_pct cfg * cap;
          sl_dist = \<bar>entry_price t - stop_loss t\<bar>
      in t\<lparr>exit_idx := i, exit_price := price,
            pnl := (if sl_dist > 0 then raw * (risk_amount / sl_dist) else 0),
            closed' := True\<rparr>)"

definition exit_phase :: "Config \<Rightarrow> nat \<Rightarrow> real \<Rightarrow> real \<Rightarrow> sim \<Rightarrow> sim" where
  "exit_phase cfg i high low st =
     (case open_trade st of None \<Rightarrow> st
      | Some t \<Rightarrow>
          (case check_exit (spread_of cfg) t high low of None \<Rightarrow> st
           | Some (k, price) \<Rightarrow>
               (let t' = close_trade cfg (capital st) t (int i) price
                in st\<lparr>capital := capital st + pnl t', ledger := ledger st @ [t'],
                       open_trade := None\<rparr>)))"

text \<open>Lines 129-148: the trade opened on a nonzero signal.\<close>

definition new_trade :: "Config \<Rightarrow> nat \<Rightarrow> real \<Rightarrow> real \<Rightarrow> int \<Rightarrow> Trade" where
  "new_trade cfg i atr close signal =
     (let sl_dist = atr * sl_atr_mult cfg; tp_dist = atr * tp_atr_mult cfg;
          ep = (if signal = 1 then close + spread_of cfg / 2 else close - spread_of cfg / 2)
      in \<lparr>entry_idx = int i, entry_price = ep, direction = signal,
          stop_loss = (if signal = 1 then ep - sl_dist else ep + sl_dist),
          take_profit = (if signal = 1 then ep + tp_dist else ep - tp_dist),
          exit_idx = - 1, exit_price = 0, pnl = 0, closed' = False\<rparr>)"

definition entry_phase :: "Config \<Rightarrow> nat \<Rightarrow> real \<Rightarrow> real \<Rightarrow> int \<Rightarrow> sim \<Rightarrow> sim" where
  "entry_phase cfg i atr close signal st =
     (if open_trade st = None \<and> signal \<noteq> 0
      then st\<lparr>open_trade := Some (new_trade cfg i atr close signal)\<rparr>
      else st)"

definition append_equity :: "sim \<Rightarrow> sim" where
  "append_equity st = st\<lparr>curve := curve st @ [capital st]\<rparr>"

text \<open>One iteration of the loop (lines 81-150), for bar \<open>i\<close>.\<close>

definition bar_step :: "DataFrame \<Rightarrow> Config \<Rightarrow> real option list \<Rightarrow> nat \<Rightarrow> sim \<Rightarrow> error + sim" where
  "bar_step df cfg atrs i st =
     (case iloc atrs i of Inl e \<Rightarrow> Inl e
      | Inr None \<Rightarrow> Inr (append_equity st)
      | Inr (Some atr) \<Rightarrow>
          if atr = 0 then Inr (append_equity st)
          else
            (case cell ''close'' (col_close df) i of Inl e \<Rightarrow> Inl e | Inr close \<Rightarrow>
            (case cell ''high'' (col_high df) i of Inl e \<Rightarrow> Inl e | Inr high \<Rightarrow>
            (case cell ''low'' (col_low df) i of Inl e \<Rightarrow> Inl e | Inr low \<Rightarrow>
            (case cell ''signal'' (col_signal df) i of Inl e \<Rightarrow> Inl e | Inr signal \<Rightarrow>
               Inr (append_equity
                      (entry_phase cfg i atr close signal
                         (exit_phase cfg i high low st))))))))"

fun run_bars :: "DataFrame \<Rightarrow> Config \<Rightarrow> real option list \<Rightarrow> nat list \<Rightarrow> sim \<Rightarrow> error + sim" where
  "run_bars df cfg atrs [] st = Inr st"
| "run_bars df cfg atrs (i # js) st =
     (case bar_step df cfg atrs i st of Inl e \<Rightarrow> Inl e
      | Inr st' \<Rightarrow> run_bars df cfg atrs js st')"

definition init_sim :: "Config \<Rightarrow> sim" where
  "init_sim cfg = \<lparr>capital = initial_capital cfg, curve = [initial_capital cfg],
     ledger = [], open_trade = None\<rparr>"

text \<open>Lines 66-150: the state when the loop \<open>for i in range(1, len(df))\<close> has ended.\<close>

definition simulate :: "DataFrame \<Rightarrow> Config \<Rightarrow> error + sim" where
  "simulate df cfg =
     (case atr_column df of Inl e \<Rightarrow> Inl e
      | Inr atrs \<Rightarrow> run_bars df cfg atrs [1..<n_rows df] (init_sim cfg))"

text \<open>Lines 153-167: a trade still open is closed at \<open>df["close"].iloc[-1]\<close>.\<close>

definition force_close :: "DataFrame \<Rightarrow> Config \<Rightarrow> sim \<Rightarrow> error + sim" where
  "force_close df cfg st =
     (case open_trade st of None \<Rightarrow> Inr st
      | Some t \<Rightarrow>
          (case column ''close'' (col_close df) of Inl e \<Rightarrow> Inl e
           | Inr c \<Rightarrow>
               if c = [] then Inl IndexError
               else
                 (let t' = close_trade cfg (capital st) t (int (n_rows df) - 1) (last c)
                  in Inr (st\<lparr>capital := capital st + pnl t', ledger := ledger st @ [t'],
                              open_trade := None\<rparr>))))"

subsection \<open>Metrics and the returned result\<close>

text \<open>
  Python's \<open>round(x, n)\<close> on the idealised value: to the nearest multiple of \<open>10^-n\<close>,
  a tie to the even one.
\<close>

definition py_round :: "real \<Rightarrow> nat \<Rightarrow> real" where
  "py_round x n =
     (let y = x * 10 ^ n; f = \<lfloor>y\<rfloor>; d = y - of_int f
      in of_int (if d < 1/2 then f else if d > 1/2 then f + 1
                 else if even f then f else f + 1) / 10 ^ n)"

definition trade_dict :: "Trade \<Rightarrow> TradeDict" where
  "trade_dict t = \<lparr>d_entry_idx = entry_idx t, d_entry_price = py_round (entry_price t) 5,
     d_exit_idx = exit_idx t, d_exit_price = py_round (exit_price t) 5,
     d_direction = (if direction t = 1 then ''LONG'' else ''SHORT''),
     d_pnl = py_round (pnl t) 2, d_stop_loss = py_round (stop_loss t) 5,
     d_take_profit = py_round (take_profit t) 5\<rparr>"

text \<open>
  \<open>np.diff(equity_curve) / np.array(equity_curve[:-1])\<close>. A zero divisor gives an
  infinite or undefined return, which makes \<open>np.std\<close> undefined and the test
  \<open>np.std(returns) > 0\<close> false.
\<close>

definition returns :: "real list \<Rightarrow> real list" where
  "returns ec = map (\<lambda>(a, b). (b - a) / a) (zip (butlast ec) (tl ec))"

definition mean :: "real list \<Rightarrow> real" where
  "mean xs = sum_list xs / real (length xs)"

definition std :: "real list \<Rightarrow> real" where
  "std xs = sqrt (mean (map (\<lambda>x. (x - mean xs)\<^sup>2) xs))"

definition sharpe :: "real list \<Rightarrow> real" where
  "sharpe ec =
     (if 0 \<in> set (butlast ec) then 0
      else if length (returns ec) > 1 \<and> std (returns ec) > 0
      then mean (returns ec) / std (returns ec) * sqrt 252
      else 0)"

text \<open>Lines 187-195: the running peak and the largest relative decline from it.\<close>

fun drawdown_loop :: "real list \<Rightarrow> real \<Rightarrow> real \<Rightarrow> real" where
  "drawdown_loop [] peak max_dd = max_dd"
| "drawdown_loop (val # vals) peak max_dd =
     (let peak' = (if val > peak then val else peak);
          dd = (if peak' > 0 then (peak' - val) / peak' else 0)
      in drawdown_loop vals peak' (if dd > max_dd then dd else max_dd))"

definition metrics :: "sim \<Rightarrow> BacktestResult" where
  "metrics st =
     (if ledger st = [] then
        \<lparr>trades = [], equity_curve = curve st, win_rate = 0, total_trades = 0,
         total_pnl = 0, sharpe_ratio = 0, max_drawdown = 0\<rparr>
      else
        \<lparr>trades = map trade_dict (ledger st),
         equity_curve = curve st,
         win_rate = real (length (filter (\<lambda>t. pnl t > 0) (ledger st)))
                      / real (length (ledger st)),
         total_trades = length (ledger st),
         total_pnl = sum_list (map pnl (ledger st)),
         sharpe_ratio = sharpe (curve st),
         max_drawdown = drawdown_loop (curve st) (hd (curve st)) 0\<rparr>)"

definition run_backtest :: "DataFrame \<Rightarrow> Config \<Rightarrow> error + BacktestResult" where
  "run_backtest df cfg =
     (case simulate df cfg of Inl e \<Rightarrow> Inl e
      | Inr st \<Rightarrow>
          (case force_close df cfg st of Inl e \<Rightarrow> Inl e
           | Inr st' \<Rightarrow> Inr (metrics st')))"

section \<open>Volatility-contraction signals (src/app/strategies/volatility\_contraction.py)\<close>







section \<open>Strategy parameters (src/app/strategies/base.py, mean\_reversion.py)\<close>





subsection \<open>The builtin constructors \<open>int\<close>, \<open>float\<close> and \<open>bool\<close>\<close>


















subsection \<open>Strategy objects\<close>










section \<open>Example inputs\<close>

text \<open>An empty series with every column of a signalled price series.\<close>

definition bars_empty :: DataFrame where
  "bars_empty = \<lparr>n_rows = 0, col_time = Some [], col_open = Some [], col_high = Some [],
     col_low = Some [], col_close = Some [], col_signal = Some [], col_atr = None\<rparr>"


text \<open>
  BUY signals on bars 0 and 1; bar 2 reaches both the stop (low 0.99) and the target
  (high 1.01) of the trade opened on bar 1.
\<close>

definition bars_tie :: DataFrame where
  "bars_tie = \<lparr>n_rows = 3, col_time = Some [0, 1, 2], col_open = Some [1, 1, 1],
     col_high = Some [1, 1001/1000, 101/100], col_low = Some [1, 999/1000, 99/100],
     col_close = Some [1, 1000001/1000000, 1], col_signal = Some [1, 1, 0],
     col_atr = Some [None, Some (2/1000), Some (2/1000)]\<rparr>"

text \<open>
  A BUY on bar 1; the lows of bars 2, 3 and 4 are below its stop, and the ATR is NaN
  on bar 2 and zero on bar 3.
\<close>

definition bars_gap :: DataFrame where
  "bars_gap = \<lparr>n_rows = 5, col_time = Some [0, 1, 2, 3, 4], col_open = Some [1, 1, 1, 1, 1],
     col_high = Some [1, 1001/1000, 1, 1, 1],
     col_low = Some [1, 999/1000, 99/100, 99/100, 99/100],
     col_close = Some [1, 1, 1, 1, 1], col_signal = Some [0, 1, 0, 0, 0],
     col_atr = Some [None, Some (2/1000), None, Some 0, Some (2/1000)]\<rparr>"

text \<open>A BUY on bar 1 that reaches neither its stop nor its target on bar 2, the last.\<close>

definition bars_open :: DataFrame where
  "bars_open = \<lparr>n_rows = 3, col_time = Some [0, 1, 2], col_open = Some [1, 1, 1],
     col_high = Some [1, 1001/1000, 1002/1000], col_low = Some [1, 999/1000, 999/1000],
     col_close = Some [1, 1, 1001/1000], col_signal = Some [0, 1, 0],
     col_atr = Some [None, Some (2/1000), Some (2/1000)]\<rparr>"

text \<open>The result of a run that made no trade, with the default capital.\<close>

definition no_trades :: "real list \<Rightarrow> BacktestResult" where
  "no_trades ec = \<lparr>trades = [], equity_curve = ec, win_rate = 0, total_trades = 0,
     total_pnl = 0, sharpe_ratio = 0, max_drawdown = 0\<rparr>"

text \<open>What \<open>run_backtest\<close> returns on \<open>bars_tie\<close> with the default arguments.\<close>

definition tie_result :: BacktestResult where
  "tie_result = \<lparr>trades = [\<lparr>d_entry_idx = 1, d_entry_price = 100008/100000, d_exit_idx = 2,
       d_exit_price = 997/1000, d_direction = ''LONG'', d_pnl = - (205/2),
       d_stop_loss = 99708/100000, d_take_profit = 100408/100000\<rparr>],
     equity_curve = [10000, 10000, 19795/2], win_rate = 0, total_trades = 1,
     total_pnl = - (205/2), sharpe_ratio = sharpe [10000, 10000, 19795/2],
     max_drawdown = 41/4000\<rparr>"

text \<open>
  The trade that a BUY opens on bar 1 at close \<open>c\<close> with ATR 0.002 and the default
  arguments, and the state of the loop after that bar.
\<close>

definition entry_trade :: "real \<Rightarrow> Trade" where
  "entry_trade c = \<lparr>entry_idx = 1, entry_price = c + 3/40000, direction = 1,
     stop_loss = c + 3/40000 - 3/1000, take_profit = c + 3/40000 + 4/1000,
     exit_idx = - 1, exit_price = 0, pnl = 0, closed' = False\<rparr>"

definition entry_sim :: "real \<Rightarrow> sim" where
  "entry_sim c = \<lparr>capital = 10000, curve = [10000, 10000], ledger = [],
     open_trade = Some (entry_trade c)\<rparr>"



text \<open>The loop on \<open>bars_tie\<close>, \<open>bars_gap\<close> and \<open>bars_open\<close>, and the result on \<open>bars_open\<close>.\<close>

definition tie_sim :: sim where
  "tie_sim = \<lparr>capital = 19795/2, curve = [10000, 10000, 19795/2],
     ledger = [\<lparr>entry_idx = 1, entry_price = 250019/250000, direction = 1,
       stop_loss = 249269/250000, take_profit = 251019/250000, exit_idx = 2,
       exit_price = 997001/1000000, pnl = - (205/2), closed' = True\<rparr>],
     open_trade = None\<rparr>"

definition gap_atrs :: "real option list" where
  "gap_atrs = [None, Some (2/1000), None, Some 0, Some (2/1000)]"

definition gap_sim :: sim where
  "gap_sim = \<lparr>capital = 19795/2, curve = [10000, 10000, 10000, 10000, 19795/2],
     ledger = [\<lparr>entry_idx = 1, entry_price = 40003/40000, direction = 1,
       stop_loss = 39883/40000, take_profit = 40163/40000, exit_idx = 4,
       exit_price = 997/1000, pnl = - (205/2), closed' = True\<rparr>],
     open_trade = None\<rparr>"

definition open_sim :: sim where
  "open_sim = \<lparr>capital = 10000, curve = [10000, 10000, 10000], ledger = [],
     open_trade = Some (entry_trade 1)\<rparr>"

definition open_result :: BacktestResult where
  "open_result = \<lparr>trades = [\<lparr>d_entry_idx = 1, d_entry_price = 100008/100000, d_exit_idx = 2,
       d_exit_price = 1001/1000, d_direction = ''LONG'', d_pnl = 3083/100,
       d_stop_loss = 99708/100000, d_take_profit = 100408/100000\<rparr>],
     equity_curve = [10000, 10000, 10000], win_rate = 1, total_trades = 1,
     total_pnl = 185/6, sharpe_ratio = sharpe [10000, 10000, 10000],
     max_drawdown = 0\<rparr>"

section \<open>Auxiliary notions for the proofs\<close>



section \<open>Properties of the backtest engine\<close>

subsection \<open>The loop: case analysis and invariants\<close>

lemmas run_defs = run_backtest_def simulate_def atr_column_def compute_atr_def column_def cell_def
  iloc_def init_sim_def force_close_def metrics_def default_config_def upt_conv_Cons
  bar_step_def append_equity_def entry_phase_def exit_phase_def check_exit_def new_trade_def
  close_trade_def spread_of_def Let_def

lemma run_bars_invariant:
  assumes "run_bars df cfg atrs js st = Inr st'" and "P st"
    and "\<And>i s s'. i \<in> set js \<Longrightarrow> P s \<Longrightarrow> bar_step df cfg atrs i s = Inr s' \<Longrightarrow> P s'"
  shows "P st'"
  using assms
proof (induction js arbitrary: st)
  case Nil
  then show ?case by simp
next
  case (Cons i js)
  from Cons.prems(1) obtain s1 where s1: "bar_step df cfg atrs i st = Inr s1"
    and rest: "run_bars df cfg atrs js s1 = Inr st'"
    by (auto split: sum.splits)
  have "P s1" using Cons.prems(3)[of i st s1] Cons.prems(2) s1 by simp
  then show ?case
  proof (rule Cons.IH[OF rest])
    fix j s s'
    assume "j \<in> set js" "P s" "bar_step df cfg atrs j s = Inr s'"
    then show "P s'" using Cons.prems(3)[of j s s'] by simp
  qed
qed

lemma bar_step_cases:
  assumes "bar_step df cfg atrs i st = Inr st'"
  obtains (skip) "iloc atrs i = Inr None \<or> iloc atrs i = Inr (Some 0)" "st' = append_equity st"
  | (trade) atr close high low signal where "iloc atrs i = Inr (Some atr)" "atr \<noteq> 0"
      "cell ''close'' (col_close df) i = Inr close" "cell ''high'' (col_high df) i = Inr high"
      "cell ''low'' (col_low df) i = Inr low" "cell ''signal'' (col_signal df) i = Inr signal"
      "st' = append_equity (entry_phase cfg i atr close signal (exit_phase cfg i high low st))"
  using assms unfolding bar_step_def
  by (auto split: sum.splits option.splits if_splits)

lemma append_equity_simps [simp]:
  "capital (append_equity st) = capital st"
  "curve (append_equity st) = curve st @ [capital st]"
  "ledger (append_equity st) = ledger st"
  "open_trade (append_equity st) = open_trade st"
  by (simp_all add: append_equity_def)

lemma entry_phase_simps [simp]:
  "capital (entry_phase cfg i atr close signal st) = capital st"
  "curve (entry_phase cfg i atr close signal st) = curve st"
  "ledger (entry_phase cfg i atr close signal st) = ledger st"
  by (simp_all add: entry_phase_def)

lemma exit_phase_curve [simp]: "curve (exit_phase cfg i high low st) = curve st"
  by (simp add: exit_phase_def Let_def split: option.splits prod.splits)

lemma bar_step_curve:
  assumes "bar_step df cfg atrs i st = Inr st'"
  shows "curve st' = curve st @ [capital st']"
  using assms by (cases rule: bar_step_cases) auto

lemma run_bars_curve:
  "run_bars df cfg atrs js st = Inr st' \<Longrightarrow>
     \<exists>ys. curve st' = curve st @ ys \<and> length ys = length js"
proof (induction js arbitrary: st)
  case Nil
  then show ?case by simp
next
  case (Cons i js)
  from Cons.prems obtain s1 where s1: "bar_step df cfg atrs i st = Inr s1"
    and rest: "run_bars df cfg atrs js s1 = Inr st'"
    by (auto split: sum.splits)
  from Cons.IH[OF rest] obtain ys where "curve st' = curve s1 @ ys" "length ys = length js"
    by blast
  then have "curve st' = curve st @ (capital s1 # ys) \<and> length (capital s1 # ys) = length (i # js)"
    using bar_step_curve[OF s1] by simp
  then show ?case by blast
qed

lemma force_close_curve: "force_close df cfg st = Inr st' \<Longrightarrow> curve st' = curve st"
  by (auto simp: force_close_def Let_def split: option.splits sum.splits if_splits)

lemma metrics_curve [simp]: "equity_curve (metrics st) = curve st"
  by (simp add: metrics_def)

lemma run_backtest_Inr:
  assumes "run_backtest df cfg = Inr r"
  obtains atrs st st' where "atr_column df = Inr atrs"
    "run_bars df cfg atrs [1..<n_rows df] (init_sim cfg) = Inr st"
    "simulate df cfg = Inr st" "force_close df cfg st = Inr st'" "r = metrics st'"
  using assms unfolding run_backtest_def simulate_def
  by (auto split: sum.splits)

lemma equity_curve_shape:
  assumes "run_backtest df cfg = Inr r"
  shows "length (equity_curve r) = max 1 (n_rows df) \<and> equity_curve r ! 0 = initial_capital cfg"
proof -
  from assms obtain atrs st st' where
    run: "run_bars df cfg atrs [1..<n_rows df] (init_sim cfg) = Inr st"
    and fc: "force_close df cfg st = Inr st'" and r: "r = metrics st'"
    by (rule run_backtest_Inr)
  from run_bars_curve[OF run] obtain ys where
    "curve st = [initial_capital cfg] @ ys" "length ys = n_rows df - 1"
    by (auto simp: init_sim_def)
  then show ?thesis using force_close_curve[OF fc] r by auto
qed

subsection \<open>The engine returns on a well-formed frame\<close>

lemma atr_column_length:
  assumes "well_formed df" "atr_column df = Inr atrs"
  shows "length atrs = n_rows df"
  using assms
  by (auto simp: well_formed_def atr_column_def compute_atr_def column_def
      split: option.splits sum.splits)

lemma atr_column_total:
  assumes "col_high df \<noteq> None" "col_low df \<noteq> None" "col_close df \<noteq> None"
  shows "\<exists>atrs. atr_column df = Inr atrs"
  using assms
  by (auto simp: atr_column_def compute_atr_def column_def split: option.splits)

lemma cell_total:
  assumes "c = Some xs" "i < length xs"
  shows "cell name c i = Inr (xs ! i)"
  using assms by (simp add: cell_def column_def iloc_def)

lemma bar_step_total:
  assumes wf: "well_formed df" and cols: "col_high df \<noteq> None" "col_low df \<noteq> None"
      "col_close df \<noteq> None" "col_signal df \<noteq> None"
    and len: "length atrs = n_rows df" and i: "i < n_rows df"
  shows "\<exists>st'. bar_step df cfg atrs i st = Inr st'"
proof -
  from cols obtain h l c s where cs: "col_high df = Some h" "col_low df = Some l"
    "col_close df = Some c" "col_signal df = Some s" by auto
  with wf have "length h = n_rows df" "length l = n_rows df" "length c = n_rows df"
    "length s = n_rows df" by (auto simp: well_formed_def)
  with i cs have "cell ''close'' (col_close df) i = Inr (c ! i)"
    "cell ''high'' (col_high df) i = Inr (h ! i)" "cell ''low'' (col_low df) i = Inr (l ! i)"
    "cell ''signal'' (col_signal df) i = Inr (s ! i)"
    by (simp_all add: cell_total)
  moreover have "iloc atrs i = Inr (atrs ! i)" using len i by (simp add: iloc_def)
  ultimately show ?thesis by (simp add: bar_step_def split: option.splits)
qed

lemma run_bars_total:
  assumes wf: "well_formed df" and cols: "col_high df \<noteq> None" "col_low df \<noteq> None"
      "col_close df \<noteq> None" "col_signal df \<noteq> None"
    and len: "length atrs = n_rows df" and js: "\<forall>i\<in>set js. i < n_rows df"
  shows "\<exists>st'. run_bars df cfg atrs js st = Inr st'"
  using js
proof (induction js arbitrary: st)
  case Nil
  then show ?case by simp
next
  case (Cons i js)
  then have "i < n_rows df" by simp
  from bar_step_total[OF wf cols len this] obtain s1 where
    "bar_step df cfg atrs i st = Inr s1" by blast
  moreover from Cons obtain st' where "run_bars df cfg atrs js s1 = Inr st'" by auto
  ultimately show ?case by simp
qed

lemma force_close_total:
  assumes "well_formed df" "col_close df \<noteq> None" "0 < n_rows df"
  shows "\<exists>st'. force_close df cfg st = Inr st'"
  using assms
  by (auto simp: force_close_def column_def well_formed_def Let_def split: option.splits)

lemma run_backtest_total:
  assumes wf: "well_formed df" and cols: "col_high df \<noteq> None" "col_low df \<noteq> None"
      "col_close df \<noteq> None" "col_signal df \<noteq> None"
  shows "\<exists>r. run_backtest df cfg = Inr r"
proof -
  from atr_column_total[OF cols(1-3)] obtain atrs where a: "atr_column df = Inr atrs" by blast
  have len: "length atrs = n_rows df" by (rule atr_column_length[OF wf a])
  have "\<forall>i\<in>set [1..<n_rows df]. i < n_rows df" by simp
  from run_bars_total[OF wf cols len this] obtain st where
    st: "run_bars df cfg atrs [1..<n_rows df] (init_sim cfg) = Inr st" by blast
  have "\<exists>st'. force_close df cfg st = Inr st'"
  proof (cases "n_rows df = 0")
    case True
    then have "st = init_sim cfg" using st by simp
    then show ?thesis by (simp add: force_close_def init_sim_def)
  next
    case False
    then show ?thesis using force_close_total[OF wf cols(3)] by simp
  qed
  then obtain st' where "force_close df cfg st = Inr st'" by blast
  then show ?thesis using a st by (simp add: run_backtest_def simulate_def)
qed


lemma exit_phase_cases:
  obtains (keep) "exit_phase cfg i high low st = st"
      "open_trade st = None \<or> (\<exists>t. open_trade st = Some t \<and> check_exit (spread_of cfg) t high low = None)"
  | (exit) t k price where "open_trade st = Some t"
      "check_exit (spread_of cfg) t high low = Some (k, price)"
      "exit_phase cfg i high low st =
         st\<lparr>capital := capital st + pnl (close_trade cfg (capital st) t (int i) price),
            ledger := ledger st @ [close_trade cfg (capital st) t (int i) price],
            open_trade := None\<rparr>"
  by (cases "open_trade st"; cases "check_exit (spread_of cfg) (the (open_trade st)) high low")
     (auto simp: exit_phase_def Let_def)

lemma entry_phase_open:
  "open_trade (entry_phase cfg i atr close signal st) =
     (if open_trade st = None \<and> signal \<noteq> 0 then Some (new_trade cfg i atr close signal)
      else open_trade st)"
  by (simp add: entry_phase_def)

lemma run_bars_all_trades:
  assumes run: "run_bars df cfg atrs js st = Inr st'"
    and init: "\<forall>t\<in>set (ledger st). Q t" "\<forall>t. open_trade st = Some t \<longrightarrow> R t"
    and new: "\<And>i atr close signal. i \<in> set js \<Longrightarrow> iloc atrs i = Inr (Some atr) \<Longrightarrow> atr \<noteq> 0
       \<Longrightarrow> cell ''close'' (col_close df) i = Inr close \<Longrightarrow> signal \<noteq> 0
       \<Longrightarrow> R (new_trade cfg i atr close signal)"
    and close: "\<And>i atr t cap high low k price. i \<in> set js \<Longrightarrow> R t
       \<Longrightarrow> iloc atrs i = Inr (Some atr) \<Longrightarrow> atr \<noteq> 0
       \<Longrightarrow> check_exit (spread_of cfg) t high low = Some (k, price)
       \<Longrightarrow> Q (close_trade cfg cap t (int i) price)"
  shows "(\<forall>t\<in>set (ledger st'). Q t) \<and> (\<forall>t. open_trade st' = Some t \<longrightarrow> R t)"
proof (rule run_bars_invariant[OF run, where P = "\<lambda>s. (\<forall>t\<in>set (ledger s). Q t) \<and> (\<forall>t. open_trade s = Some t \<longrightarrow> R t)"])
  show "(\<forall>t\<in>set (ledger st). Q t) \<and> (\<forall>t. open_trade st = Some t \<longrightarrow> R t)"
    using init by simp
next
  fix i s s'
  assume i: "i \<in> set js"
    and inv: "(\<forall>t\<in>set (ledger s). Q t) \<and> (\<forall>t. open_trade s = Some t \<longrightarrow> R t)"
    and step: "bar_step df cfg atrs i s = Inr s'"
  from step show "(\<forall>t\<in>set (ledger s'). Q t) \<and> (\<forall>t. open_trade s' = Some t \<longrightarrow> R t)"
  proof (cases rule: bar_step_cases)
    case skip
    then show ?thesis using inv by simp
  next
    case (trade atr close high low signal)
    let ?s1 = "exit_phase cfg i high low s"
    have s1: "(\<forall>t\<in>set (ledger ?s1). Q t) \<and> (\<forall>t. open_trade ?s1 = Some t \<longrightarrow> R t)"
    proof (cases rule: exit_phase_cases[of cfg i high low s])
      case keep
      then show ?thesis using inv by simp
    next
      case (exit t k price)
      have "Q (close_trade cfg (capital s) t (int i) price)"
        using close[OF i _ trade(1,2) exit(2)] inv exit(1) by simp
      then show ?thesis using inv exit(3) by simp
    qed
    have "R (new_trade cfg i atr close signal)" if "signal \<noteq> 0"
      using new[OF i trade(1,2,3) that] .
    then show ?thesis using s1 trade(7) by (simp add: entry_phase_open)
  qed
qed

lemma close_trade_simps [simp]:
  "entry_idx (close_trade cfg cap t i price) = entry_idx t"
  "entry_price (close_trade cfg cap t i price) = entry_price t"
  "direction (close_trade cfg cap t i price) = direction t"
  "stop_loss (close_trade cfg cap t i price) = stop_loss t"
  "take_profit (close_trade cfg cap t i price) = take_profit t"
  "exit_idx (close_trade cfg cap t i price) = i"
  "exit_price (close_trade cfg cap t i price) = price"
  "closed' (close_trade cfg cap t i price) = True"
  by (simp_all add: close_trade_def Let_def)

lemma new_trade_simps [simp]:
  "entry_idx (new_trade cfg i atr close signal) = int i"
  "direction (new_trade cfg i atr close signal) = signal"
  "entry_price (new_trade cfg i atr close signal) =
     (if signal = 1 then close + spread_of cfg / 2 else close - spread_of cfg / 2)"
  by (simp_all add: new_trade_def Let_def)

lemma force_close_cases:
  assumes "force_close df cfg st = Inr st'"
  obtains (flat) "open_trade st = None" "st' = st"
  | (forced) t c where "open_trade st = Some t" "col_close df = Some c" "c \<noteq> []"
      "st' = st\<lparr>capital := capital st + pnl (close_trade cfg (capital st) t (int (n_rows df) - 1) (last c)),
            ledger := ledger st @ [close_trade cfg (capital st) t (int (n_rows df) - 1) (last c)],
            open_trade := None\<rparr>"
  using assms
  by (auto simp: force_close_def column_def Let_def split: option.splits if_splits)

lemma metrics_trades [simp]: "trades (metrics st) = map trade_dict (ledger st)"
  by (simp add: metrics_def)

lemma metrics_total_pnl [simp]: "total_pnl (metrics st) = sum_list (map pnl (ledger st))"
  by (simp add: metrics_def)

lemma trade_dict_simps [simp]:
  "d_entry_idx (trade_dict t) = entry_idx t"
  "d_exit_idx (trade_dict t) = exit_idx t"
  by (simp_all add: trade_dict_def)

subsection \<open>Equity curve\<close>

text \<open>
  C3 (amended). On every well-formed series that has the columns high, low, close and
  signal, \<open>run_backtest\<close> returns a result whose equity curve starts with the initial
  capital and has one entry per bar when the series is not empty; on the empty series
  the curve has the single entry \<open>initial_capital\<close>, so its length is 1 and not 0.
\<close>

theorem equity_curve_per_bar:
  assumes "well_formed df" "col_high df \<noteq> None" "col_low df \<noteq> None" "col_close df \<noteq> None"
    "col_signal df \<noteq> None"
  shows "\<exists>r. run_backtest df cfg = Inr r
    \<and> length (equity_curve r) = (if n_rows df = 0 then 1 else n_rows df)
    \<and> equity_curve r ! 0 = initial_capital cfg"
proof -
  from run_backtest_total[OF assms] obtain r where r: "run_backtest df cfg = Inr r" by blast
  with equity_curve_shape[OF r] show ?thesis by (auto simp: max_def)
qed

theorem equity_curve_per_bar_witness:
  "well_formed bars_tie \<and> col_high bars_tie \<noteq> None \<and> col_low bars_tie \<noteq> None
   \<and> col_close bars_tie \<noteq> None \<and> col_signal bars_tie \<noteq> None
   \<and> (\<exists>r. run_backtest bars_tie default_config = Inr r \<and> length (equity_curve r) = 3
          \<and> equity_curve r ! 0 = 10000)"
proof -
  have h: "well_formed bars_tie" "col_high bars_tie \<noteq> None" "col_low bars_tie \<noteq> None"
    "col_close bars_tie \<noteq> None" "col_signal bars_tie \<noteq> None"
    by (simp_all add: well_formed_def bars_tie_def)
  have n: "n_rows bars_tie = 3" "initial_capital default_config = 10000"
    by (simp_all add: bars_tie_def default_config_def)
  show ?thesis
    using h equity_curve_per_bar[OF h, of default_config] unfolding n by simp
qed

text \<open>
  C3 as stated fails on the empty series: the curve returned has one entry, the series
  has no bar.
\<close>

theorem empty_series_curve_counterexample:
  "run_backtest bars_empty default_config = Inr (no_trades [10000])
   \<and> length (equity_curve (no_trades [10000])) \<noteq> n_rows bars_empty"
  by (simp add: run_defs bars_empty_def no_trades_def)

subsection \<open>Entries\<close>

lemma simulate_entry_idx:
  assumes "run_bars df cfg atrs [1..<n] (init_sim cfg) = Inr st"
  shows "(\<forall>t\<in>set (ledger st). 1 \<le> entry_idx t)
    \<and> (\<forall>t. open_trade st = Some t \<longrightarrow> 1 \<le> entry_idx t)"
  by (rule run_bars_all_trades[OF assms]) (auto simp: init_sim_def)

text \<open>
  C8. Every trade of the returned ledger was entered on a bar of index at least 1: the
  loop starts at bar 1, so a signal on bar 0 opens nothing.
\<close>

theorem entry_idx_at_least_one:
  assumes "run_backtest df cfg = Inr r"
  shows "\<forall>d\<in>set (trades r). 1 \<le> d_entry_idx d"
proof -
  from assms obtain atrs st st' where
    run: "run_bars df cfg atrs [1..<n_rows df] (init_sim cfg) = Inr st"
    and fc: "force_close df cfg st = Inr st'" and r: "r = metrics st'"
    by (rule run_backtest_Inr)
  note inv = simulate_entry_idx[OF run]
  from fc have "\<forall>t\<in>set (ledger st'). 1 \<le> entry_idx t"
    by (cases rule: force_close_cases) (use inv in auto)
  then show ?thesis using r by simp
qed

theorem entry_idx_at_least_one_witness:
  "run_backtest bars_tie default_config = Inr tie_result
   \<and> trades tie_result \<noteq> [] \<and> 1 \<le> d_entry_idx (hd (trades tie_result))"
proof -
  have h: "run_backtest bars_tie default_config = Inr tie_result"
    by (simp add: run_defs bars_tie_def tie_result_def trade_dict_def py_round_def)
  have ne: "trades tie_result \<noteq> []" by (simp add: tie_result_def)
  show ?thesis using h ne entry_idx_at_least_one[OF h] by simp
qed

subsection \<open>Exits\<close>



lemma simulate_exit_bars:
  assumes "run_bars df cfg atrs [1..<n] (init_sim cfg) = Inr st"
  shows "\<forall>t\<in>set (ledger st). \<exists>a. 1 \<le> exit_idx t \<and> exit_idx t < int n
    \<and> iloc atrs (nat (exit_idx t)) = Inr (Some a) \<and> a \<noteq> 0"
proof -
  have "(\<forall>t\<in>set (ledger st). \<exists>a. 1 \<le> exit_idx t \<and> exit_idx t < int n
           \<and> iloc atrs (nat (exit_idx t)) = Inr (Some a) \<and> a \<noteq> 0)
      \<and> (\<forall>t. open_trade st = Some t \<longrightarrow> True)"
    by (rule run_bars_all_trades[OF assms]) (auto simp: init_sim_def)
  then show ?thesis by simp
qed

text \<open>
  C9. On a bar whose ATR is NaN or zero the step only appends the capital to the equity
  curve: the open trade, the ledger and the capital are unchanged, whatever the bar's
  high and low. Every trade that the loop has closed was closed on a bar of index at
  least 1 with a defined, nonzero ATR; a trade still open when the loop ends is closed
  by \<open>force_close\<close> only.
\<close>

theorem no_exit_on_undefined_atr:
  "(iloc atrs i = Inr None \<or> iloc atrs i = Inr (Some 0) \<longrightarrow>
      (\<exists>st1. bar_step df cfg atrs i st = Inr st1 \<and> open_trade st1 = open_trade st
         \<and> ledger st1 = ledger st \<and> capital st1 = capital st))
   \<and> (atr_column df = Inr atrs' \<and> simulate df cfg = Inr st' \<longrightarrow>
      (\<forall>t\<in>set (ledger st'). \<exists>a. 1 \<le> exit_idx t \<and> exit_idx t < int (n_rows df)
         \<and> iloc atrs' (nat (exit_idx t)) = Inr (Some a) \<and> a \<noteq> 0))"
proof (intro conjI impI)
  assume "iloc atrs i = Inr None \<or> iloc atrs i = Inr (Some 0)"
  then have "bar_step df cfg atrs i st = Inr (append_equity st)"
    by (auto simp: bar_step_def)
  then show "\<exists>st1. bar_step df cfg atrs i st = Inr st1 \<and> open_trade st1 = open_trade st
         \<and> ledger st1 = ledger st \<and> capital st1 = capital st" by simp
next
  assume "atr_column df = Inr atrs' \<and> simulate df cfg = Inr st'"
  then have "run_bars df cfg atrs' [1..<n_rows df] (init_sim cfg) = Inr st'"
    by (auto simp: simulate_def)
  then show "\<forall>t\<in>set (ledger st'). \<exists>a. 1 \<le> exit_idx t \<and> exit_idx t < int (n_rows df)
         \<and> iloc atrs' (nat (exit_idx t)) = Inr (Some a) \<and> a \<noteq> 0"
    by (rule simulate_exit_bars)
qed

theorem no_exit_on_undefined_atr_witness:
  "iloc gap_atrs 2 = Inr None
   \<and> cell ''low'' (col_low bars_gap) 2 = Inr (99/100)
   \<and> 99/100 \<le> stop_loss (entry_trade 1)
   \<and> bar_step bars_gap default_config gap_atrs 2 (entry_sim 1)
       = Inr (append_equity (entry_sim 1))
   \<and> open_trade (append_equity (entry_sim 1)) = Some (entry_trade 1)
   \<and> atr_column bars_gap = Inr gap_atrs
   \<and> simulate bars_gap default_config = Inr gap_sim
   \<and> map exit_idx (ledger gap_sim) = [4]
   \<and> iloc gap_atrs 4 = Inr (Some (2/1000))"
proof -
  have h1: "iloc gap_atrs 2 = Inr None \<or> iloc gap_atrs 2 = Inr (Some 0)"
    by (simp add: iloc_def gap_atrs_def)
  have h2: "atr_column bars_gap = Inr gap_atrs \<and> simulate bars_gap default_config = Inr gap_sim"
    by (simp add: run_defs bars_gap_def gap_atrs_def gap_sim_def)
  have e: "cell ''low'' (col_low bars_gap) 2 = Inr (99/100)"
    "99/100 \<le> stop_loss (entry_trade 1)"
    "bar_step bars_gap default_config gap_atrs 2 (entry_sim 1) = Inr (append_equity (entry_sim 1))"
    "open_trade (append_equity (entry_sim 1)) = Some (entry_trade 1)"
    "map exit_idx (ledger gap_sim) = [4]" "iloc gap_atrs 4 = Inr (Some (2/1000))"
    "iloc gap_atrs 2 = Inr None"
    by (simp_all add: cell_def column_def iloc_def bars_gap_def gap_atrs_def entry_trade_def
        entry_sim_def bar_step_def append_equity_def gap_sim_def)
  show ?thesis
    using h1 h2 e
      no_exit_on_undefined_atr[of gap_atrs 2 bars_gap default_config "entry_sim 1" gap_atrs gap_sim]
    by simp
qed

subsection \<open>Capital, equity curve and total PnL\<close>





subsection \<open>Spread\<close>

lemma check_exit_price:
  assumes "check_exit spread t high low = Some (k, price)"
  shows "price = (if k = HitSL then stop_loss t else take_profit t)
                  - (if direction t = 1 then 1 else - 1) * (spread / 2)"
  using assms by (auto simp: check_exit_def split: if_splits)

text \<open>
  C5 (amended). The engine takes its spread argument in pips and converts it itself,
  by the fixed factor 0.0001. Half of the converted spread is applied against the
  position on each entry (the entry price is the close of the entry bar plus it for a
  long trade, minus it for a short one) and on each stop-loss or take-profit exit (the
  exit price is the level minus it for a long trade, plus it for a short one). The
  exit of a trade closed after the last bar is the last close, with no spread.
\<close>

theorem spread_converted_from_pips:
  assumes "simulate df cfg = Inr st"
  shows "(\<forall>t\<in>set (ledger st).
           cell ''close'' (col_close df) (nat (entry_idx t)) =
             Inr (entry_price t - (if direction t = 1 then 1 else - 1)
                                    * (spread_pips cfg * (1 / 10000) / 2))
           \<and> (exit_price t = stop_loss t - (if direction t = 1 then 1 else - 1)
                                    * (spread_pips cfg * (1 / 10000) / 2)
              \<or> exit_price t = take_profit t - (if direction t = 1 then 1 else - 1)
                                    * (spread_pips cfg * (1 / 10000) / 2)))
    \<and> (\<forall>t. open_trade st = Some t \<longrightarrow>
           cell ''close'' (col_close df) (nat (entry_idx t)) =
             Inr (entry_price t - (if direction t = 1 then 1 else - 1)
                                    * (spread_pips cfg * (1 / 10000) / 2))
           \<and> (\<forall>st'. force_close df cfg st = Inr st' \<longrightarrow>
                 (\<exists>c. col_close df = Some c \<and> exit_price (last (ledger st')) = last c)))"
proof -
  from assms obtain atrs where
    run: "run_bars df cfg atrs [1..<n_rows df] (init_sim cfg) = Inr st"
    by (auto simp: simulate_def split: sum.splits)
  let ?E = "\<lambda>t. cell ''close'' (col_close df) (nat (entry_idx t)) =
             Inr (entry_price t - (if direction t = 1 then 1 else - 1)
                                    * (spread_pips cfg * (1 / 10000) / 2))"
  let ?X = "\<lambda>t. exit_price t = stop_loss t - (if direction t = 1 then 1 else - 1)
                                    * (spread_pips cfg * (1 / 10000) / 2)
              \<or> exit_price t = take_profit t - (if direction t = 1 then 1 else - 1)
                                    * (spread_pips cfg * (1 / 10000) / 2)"
  have inv: "(\<forall>t\<in>set (ledger st). ?E t \<and> ?X t) \<and> (\<forall>t. open_trade st = Some t \<longrightarrow> ?E t)"
  proof (rule run_bars_all_trades[OF run])
    show "\<forall>t\<in>set (ledger (init_sim cfg)). ?E t \<and> ?X t" by (simp add: init_sim_def)
    show "\<forall>t. open_trade (init_sim cfg) = Some t \<longrightarrow> ?E t" by (simp add: init_sim_def)
  next
    fix i atr close and signal :: int
    assume "cell ''close'' (col_close df) i = Inr close"
    then show "?E (new_trade cfg i atr close signal)"
      by (simp add: spread_of_def)
  next
    fix i atr t cap high low k price
    assume "?E t" "check_exit (spread_of cfg) t high low = Some (k, price)"
    then show "?E (close_trade cfg cap t (int i) price) \<and> ?X (close_trade cfg cap t (int i) price)"
      using check_exit_price[of "spread_of cfg" t high low k price]
      by (cases k) (simp_all add: spread_of_def)
  qed
  have "\<exists>c. col_close df = Some c \<and> exit_price (last (ledger st')) = last c"
    if "open_trade st = Some t" "force_close df cfg st = Inr st'" for t st'
    using that(2) by (cases rule: force_close_cases) (use that(1) in auto)
  with inv show ?thesis by blast
qed

theorem spread_converted_from_pips_witness:
  "simulate bars_open default_config = Inr open_sim
   \<and> open_trade open_sim = Some (entry_trade 1)
   \<and> spread_pips default_config = 3/2
   \<and> cell ''close'' (col_close bars_open) 1 = Inr 1
   \<and> entry_price (entry_trade 1) = 1 + (3/2) * (1/10000) / 2
   \<and> simulate bars_tie default_config = Inr tie_sim
   \<and> map exit_price (ledger tie_sim) = [997001/1000000]
   \<and> map stop_loss (ledger tie_sim) = [249269/250000]
   \<and> (249269/250000 :: real) - (3/2) * (1/10000) / 2 = 997001/1000000"
proof -
  have h1: "simulate bars_open default_config = Inr open_sim"
    by (simp add: run_defs bars_open_def open_sim_def entry_trade_def)
  have e: "open_trade open_sim = Some (entry_trade 1)" "spread_pips default_config = 3/2"
    "cell ''close'' (col_close bars_open) 1 = Inr 1"
    "entry_price (entry_trade 1) = 1 + (3/2) * (1/10000) / 2"
    by (simp_all add: open_sim_def default_config_def cell_def column_def iloc_def
        bars_open_def entry_trade_def)
  have g1: "simulate bars_tie default_config = Inr tie_sim"
    by (simp add: run_defs bars_tie_def tie_sim_def)
  have g: "map exit_price (ledger tie_sim) = [997001/1000000]"
    "map stop_loss (ledger tie_sim) = [249269/250000]"
    "(249269/250000 :: real) - (3/2) * (1/10000) / 2 = 997001/1000000"
    by (simp_all add: tie_sim_def)
  show ?thesis
    using h1 e g1 g spread_converted_from_pips[OF h1] spread_converted_from_pips[OF g1]
    by simp
qed

text \<open>
  C5 as stated fails: with the default argument 1.5 the entry on a close of 1 is at
  1.000075, not at 1 plus half of 1.5; and the trade closed after the last bar of
  \<open>bars_open\<close> exits at the last close 1.001 itself.
\<close>

theorem spread_as_given_counterexample:
  "simulate bars_open default_config = Inr open_sim
   \<and> open_trade open_sim = Some (entry_trade 1)
   \<and> cell ''close'' (col_close bars_open) 1 = Inr 1
   \<and> entry_price (entry_trade 1) = 1 + 3/40000
   \<and> entry_price (entry_trade 1) \<noteq> 1 + spread_pips default_config / 2
   \<and> run_backtest bars_open default_config = Inr open_result
   \<and> cell ''close'' (col_close bars_open) 2 = Inr (1001/1000)
   \<and> d_exit_price (hd (trades open_result)) = 1001/1000"
  by (simp add: run_defs bars_open_def open_sim_def entry_trade_def open_result_def
      trade_dict_def py_round_def)

subsection \<open>Rounding\<close>





subsection \<open>Missing columns and the empty series\<close>















section \<open>Properties of the volatility-contraction signals\<close>









section \<open>Properties of \<open>set_parameters\<close>\<close>






end
